theory Spec2Isabelle
  imports Main "HOL-Library.AList" "HOL-Library.Sublist"
begin

section \<open>JavaScript values read by \<^verbatim>\<open>server.js\<close>\<close>

text \<open>
  The server handles three kinds of dynamic data: the workflow registry
  (\<^verbatim>\<open>JSON.parse\<close> of \<^verbatim>\<open>comfyui_workflows.json\<close>), the text fields of the multipart
  form, and the \<^verbatim>\<open>data\<close> payload of the provider's response envelopes. They are
  modelled by one datatype of JavaScript values. \<open>JObj\<close> carries the members of an object
  in the order in which they were defined; \<open>JBuiltin n\<close> is the value found under the
  name \<open>n\<close> on \<^verbatim>\<open>Object.prototype\<close> (a function, or the prototype object itself for
  \<^verbatim>\<open>__proto__\<close>). Numbers are only passed through and tested for zero, so they are
  integers here.
\<close>

datatype jsval =
    JUndefined
  | JNull
  | JBool bool
  | JNum int
  | JStr string
  | JArr "jsval list"
  | JObj "(string \<times> jsval) list"
  | JBuiltin string

type_synonym props = "(string \<times> jsval) list"

text \<open>JavaScript's \<^verbatim>\<open>ToBoolean\<close>, as used by \<^verbatim>\<open>!x\<close>.\<close>

fun truthy :: "jsval \<Rightarrow> bool" where
  "truthy JUndefined = False"
| "truthy JNull = False"
| "truthy (JBool b) = b"
| "truthy (JNum n) = (n \<noteq> 0)"
| "truthy (JStr s) = (s \<noteq> [])"
| "truthy (JArr xs) = True"
| "truthy (JObj ms) = True"
| "truthy (JBuiltin n) = True"

text \<open>Decimal rendering of an array index, the property key of an element.\<close>

definition digit_char :: "nat \<Rightarrow> char" where
  "digit_char d = ''0123456789'' ! d"

fun show_nat :: "nat \<Rightarrow> string" where
  "show_nat n =
     (if n < 10 then [digit_char n] else show_nat (n div 10) @ [digit_char (n mod 10)])"

declare show_nat.simps [simp del]

text \<open>
  Defining properties one after the other on an object: a key that is already there
  keeps its place and takes the new value, a new key is appended. This is what an
  object literal, \<^verbatim>\<open>JSON.parse\<close> and the spread syntax do with each property.
  (JavaScript enumerates integer-like keys before the others; nothing below depends on
  the order of the keys.)
\<close>

definition define_props :: "props \<Rightarrow> props \<Rightarrow> props" where
  "define_props ps target = fold (\<lambda>(k, v). AList.update k v) ps target"

text \<open>
  The own enumerable properties of a value, which is what \<^verbatim>\<open>{...v}\<close> copies:
  none for \<^verbatim>\<open>undefined\<close>, \<^verbatim>\<open>null\<close>, booleans, numbers and functions, the
  characters of a string and the elements of an array under their indices, and the
  members of an object (a repeated member name keeps the last value).
\<close>

fun own_enumerable :: "jsval \<Rightarrow> props" where
  "own_enumerable (JStr s) = zip (map show_nat [0..<length s]) (map (\<lambda>c. JStr [c]) s)"
| "own_enumerable (JArr xs) = zip (map show_nat [0..<length xs]) xs"
| "own_enumerable (JObj ms) = define_props ms []"
| "own_enumerable v = []"

definition own_property :: "jsval \<Rightarrow> string \<Rightarrow> jsval option" where
  "own_property v k = map_of (own_enumerable v) k"

text \<open>The spread of \<open>src\<close> into the object under construction, \<^verbatim>\<open>{ ...target, ...src }\<close>.\<close>

definition spread :: "props \<Rightarrow> jsval \<Rightarrow> props" where
  "spread target src = define_props (own_enumerable src) target"

text \<open>
  The names every object inherits from \<^verbatim>\<open>Object.prototype\<close>. An object made by
  \<^verbatim>\<open>JSON.parse\<close> has \<^verbatim>\<open>Object.prototype\<close> as its prototype, so a read of one of these
  names that is not an own property yields the inherited value, which is truthy.
\<close>

definition object_prototype_names :: "string list" where
  "object_prototype_names =
     [''constructor'', ''__defineGetter__'', ''__defineSetter__'', ''hasOwnProperty'',
      ''__lookupGetter__'', ''__lookupSetter__'', ''isPrototypeOf'',
      ''propertyIsEnumerable'', ''toString'', ''valueOf'', ''__proto__'',
      ''toLocaleString'']"

text \<open>
  The value of \<^verbatim>\<open>v[k]\<close> for a \<open>v\<close> other than \<^verbatim>\<open>undefined\<close> and \<^verbatim>\<open>null\<close>: the own
  property, else the inherited one, else \<^verbatim>\<open>undefined\<close>. It is exact for objects and
  any key. Arrays, strings and functions have further built-in members
  (\<^verbatim>\<open>length\<close>, the methods of their prototypes); the program reads from such values
  only \<^verbatim>\<open>params\<close>, \<^verbatim>\<open>function\<close>, \<^verbatim>\<open>fileUrl\<close>, \<^verbatim>\<open>taskId\<close> and the index
  \<^verbatim>\<open>0\<close>, none of which is such a member.
\<close>

definition property_value :: "jsval \<Rightarrow> string \<Rightarrow> jsval" where
  "property_value v k =
     (case own_property v k of
        Some x \<Rightarrow> x
      | None \<Rightarrow> if k \<in> set object_prototype_names then JBuiltin k else JUndefined)"

datatype js_error =
    Error string
  | TypeError string
  | MulterError string string

fun message :: "js_error \<Rightarrow> string" where
  "message (Error m) = m"
| "message (TypeError m) = m"
| "message (MulterError c m) = m"

definition cannot_read :: "string \<Rightarrow> string \<Rightarrow> string" where
  "cannot_read what k =
     ''Cannot read properties of '' @ what @ '' (reading '' @ [CHR 0x27] @ k @ [CHR 0x27] @ '')''"

text \<open>A property read as an expression that can throw: \<^verbatim>\<open>v.k\<close> or \<^verbatim>\<open>v[k]\<close>.\<close>

definition js_get :: "jsval \<Rightarrow> string \<Rightarrow> js_error + jsval" where
  "js_get v k =
     (case v of
        JUndefined \<Rightarrow> Inl (TypeError (cannot_read ''undefined'' k))
      | JNull \<Rightarrow> Inl (TypeError (cannot_read ''null'' k))
      | _ \<Rightarrow> Inr (property_value v k))"

text \<open>\<^verbatim>\<open>s.includes(p)\<close>: \<open>p\<close> occurs in \<open>s\<close> as a contiguous run.\<close>

fun str_includes :: "string \<Rightarrow> string \<Rightarrow> bool" where
  "str_includes [] p = (p = [])"
| "str_includes (c # cs) p = (prefix p (c # cs) \<or> str_includes cs p)"

section \<open>The remote provider\<close>

text \<open>
  The three outbound requests of the program, each an \<^verbatim>\<open>axios.post\<close>. The URL is the
  constructor; the arguments are the parts of the request body that the program fills in.
\<close>

record node_info =
  nodeId :: string
  fieldName :: string
  fieldValue :: jsval

datatype http_post =
    Post_upload string
  | Post_create string string "node_info list"
  | Post_outputs jsval string

text \<open>
  The envelope \<^verbatim>\<open>{code, msg, data}\<close> of a provider response (\<^verbatim>\<open>response.data\<close>), with
  \<open>msg\<close> absent or a string. A call either resolves with such an envelope or is rejected
  by \<^verbatim>\<open>axios\<close> with an error (transport failure, HTTP error status).
\<close>

record envelope =
  code :: int
  msg :: "string option"
  data :: jsval

datatype reply = Rejected js_error | Resolved envelope

type_synonym provider = "http_post \<Rightarrow> reply"

text \<open>\<^verbatim>\<open>new Error(m)\<close>: the message is empty when \<open>m\<close> is \<^verbatim>\<open>undefined\<close>.\<close>

definition new_Error :: "string option \<Rightarrow> js_error" where
  "new_Error m = Error (case m of None \<Rightarrow> [] | Some s \<Rightarrow> s)"

definition uploadImageToRunningHub :: "provider \<Rightarrow> string \<Rightarrow> js_error + jsval" where
  "uploadImageToRunningHub axios_post filePath =
     (case axios_post (Post_upload filePath) of
        Rejected e \<Rightarrow> Inl e
      | Resolved response \<Rightarrow>
          if code response \<noteq> 0 then Inl (new_Error (msg response))
          else js_get (data response) ''fileUrl'')"

text \<open>
  The arguments \<open>functionType\<close> and \<open>params\<close> are received and not used: the request
  body holds the fixed workflow identifier, the key and the image binding only.
\<close>

definition createTaskOnRunningHub ::
  "provider \<Rightarrow> jsval \<Rightarrow> props \<Rightarrow> jsval \<Rightarrow> js_error + jsval" where
  "createTaskOnRunningHub axios_post functionType params imageUrl =
     (let apiKey = ''YOUR_API_KEY'';
          workflowId = ''YOUR_WORKFLOW_ID'';
          nodeInfoList =
            [\<lparr>nodeId = ''YOUR_NODE_ID'', fieldName = ''image'', fieldValue = imageUrl\<rparr>]
      in (case axios_post (Post_create workflowId apiKey nodeInfoList) of
            Rejected e \<Rightarrow> Inl e
          | Resolved response \<Rightarrow>
              if code response \<noteq> 0 then Inl (new_Error (msg response))
              else js_get (data response) ''taskId''))"

definition getTaskResultFromRunningHub :: "provider \<Rightarrow> jsval \<Rightarrow> js_error + jsval" where
  "getTaskResultFromRunningHub axios_post taskId =
     (let apiKey = ''YOUR_API_KEY''
      in (case axios_post (Post_outputs taskId apiKey) of
            Rejected e \<Rightarrow> Inl e
          | Resolved response \<Rightarrow>
             if code response \<noteq> 0 then Inl (new_Error (msg response))
             else (case js_get (data response) (show_nat 0) of
                     Inl e \<Rightarrow> Inl e
                   | Inr output \<Rightarrow> js_get output ''fileUrl'')))"

section \<open>The request handler\<close>

text \<open>
  What the handler sees of the request once \<^verbatim>\<open>upload.single('image')\<close> has run:
  \<^verbatim>\<open>req.file\<close> (absent when the form has no \<^verbatim>\<open>image\<close> part) and the text fields of
  \<^verbatim>\<open>req.body\<close>. \<open>functionType\<close> is a text field, absent or a string;
  \<open>processingParams\<close> is \<^verbatim>\<open>undefined\<close>, a string, or the array or object that the
  form parser builds from bracketed field names.
\<close>

record stored_file =
  path :: string

record body =
  functionType :: "string option"
  processingParams :: jsval

record request =
  req_file :: "stored_file option"
  req_body :: body

datatype response =
    Json nat props
  | Plain nat string
  | Default_error_page nat js_error
  | Not_found

text \<open>The calls into the remote processing client, with their arguments, in order.\<close>

datatype call =
    UploadAsset string
  | CreateTask jsval props jsval
  | FetchResult jsval

text \<open>The \<^verbatim>\<open>catch\<close> block of the handler: the response is chosen by the error's message.\<close>

definition on_error :: "js_error \<Rightarrow> response" where
  "on_error error =
     (if message error = ''Error: Images Only!'' then
        Json 400 [(''error'', JStr ''Invalid file format''), (''message'', JStr (message error))]
      else if str_includes (message error) ''File too large'' then
        Json 413 [(''error'', JStr ''File size exceeds limit''), (''message'', JStr (message error))]
      else
        Json 500 [(''error'', JStr ''Internal Server Error''), (''message'', JStr (message error))])"

text \<open>
  \<^verbatim>\<open>res.status(n).json(obj)\<close> sends \<^verbatim>\<open>JSON.stringify(obj)\<close>, which leaves out every
  member whose value is \<^verbatim>\<open>undefined\<close> or a function. The inherited value under
  \<^verbatim>\<open>__proto__\<close> is an object and is kept. The members of the error bodies are strings;
  the one member that can be left out is \<^verbatim>\<open>resultUrl\<close> of the success body, whose
  value is read from the provider's response.
\<close>

fun stringify_omits :: "jsval \<Rightarrow> bool" where
  "stringify_omits JUndefined = True"
| "stringify_omits (JBuiltin n) = (n \<noteq> ''__proto__'')"
| "stringify_omits v = False"

definition res_json :: "nat \<Rightarrow> props \<Rightarrow> response" where
  "res_json status obj = Json status (filter (\<lambda>(k, v). \<not> stringify_omits v) obj)"

text \<open>The handler from the merge of the parameters on, for a resolved workflow.\<close>

definition process_with ::
  "provider \<Rightarrow> string \<Rightarrow> jsval \<Rightarrow> jsval \<Rightarrow> response \<times> call list" where
  "process_with axios_post filePath workflow overrides =
     (let params = spread (spread [] (property_value workflow ''params'')) overrides
      in case uploadImageToRunningHub axios_post filePath of
           Inl e \<Rightarrow> (on_error e, [UploadAsset filePath])
         | Inr imageUrl \<Rightarrow>
             (let fn = property_value workflow ''function''
              in case createTaskOnRunningHub axios_post fn params imageUrl of
                   Inl e \<Rightarrow> (on_error e, [UploadAsset filePath, CreateTask fn params imageUrl])
                 | Inr taskId \<Rightarrow>
                     (case getTaskResultFromRunningHub axios_post taskId of
                        Inl e \<Rightarrow>
                          (on_error e,
                           [UploadAsset filePath, CreateTask fn params imageUrl,
                            FetchResult taskId])
                      | Inr resultUrl \<Rightarrow>
                          (res_json 200
                             [(''status'', JStr ''completed''),
                              (''resultUrl'', resultUrl),
                              (''message'', JStr ''Image processed successfully'')],
                           [UploadAsset filePath, CreateTask fn params imageUrl,
                            FetchResult taskId]))))"

text \<open>
  The handler of \<^verbatim>\<open>POST /api/process-image\<close>. \<open>comfyuiWorkflows\<close> holds the members of
  the registry object. The result is the response and the client calls that were made.
\<close>

definition handler :: "props \<Rightarrow> provider \<Rightarrow> request \<Rightarrow> response \<times> call list" where
  "handler comfyuiWorkflows axios_post req =
     (case req_file req of
        None \<Rightarrow> (Json 400 [(''error'', JStr ''No file uploaded'')], [])
      | Some f \<Rightarrow>
          (case functionType (req_body req) of
             None \<Rightarrow> (Json 400 [(''error'', JStr ''Function type is required'')], [])
           | Some ft \<Rightarrow>
               if \<not> truthy (JStr ft) then
                 (Json 400 [(''error'', JStr ''Function type is required'')], [])
               else
                 (let workflow = property_value (JObj comfyuiWorkflows) ft
                  in if \<not> truthy workflow then
                       (Json 400 [(''error'', JStr ''Invalid function type'')], [])
                     else process_with axios_post (path f) workflow
                            (processingParams (req_body req)))))"

section \<open>The upload receiver and the route\<close>

text \<open>
  The \<^verbatim>\<open>image\<close> part of the multipart form as the file filter and the size limit see
  it. \<open>extname\<close> is the value of \<^verbatim>\<open>path.extname(file.originalname)\<close>, computed by
  Node's \<^verbatim>\<open>path\<close> module; \<open>size_bytes\<close> is the length of the payload.
\<close>

record upload_part =
  extname :: string
  mimetype :: string
  size_bytes :: nat

text \<open>\<^verbatim>\<open>toLowerCase\<close> on the letters that matter to the pattern, the ASCII capitals.\<close>

definition lower_char :: "char \<Rightarrow> char" where
  "lower_char c =
     (case map_of (zip ''ABCDEFGHIJKLMNOPQRSTUVWXYZ'' ''abcdefghijklmnopqrstuvwxyz'') c of
        Some l \<Rightarrow> l
      | None \<Rightarrow> c)"

definition toLowerCase :: "string \<Rightarrow> string" where
  "toLowerCase s = map lower_char s"

text \<open>\<^verbatim>\<open>/jpeg|jpg|png/.test(s)\<close>: the pattern is not anchored, it matches anywhere in \<open>s\<close>.\<close>

definition filetypes_test :: "string \<Rightarrow> bool" where
  "filetypes_test s \<longleftrightarrow> str_includes s ''jpeg'' \<or> str_includes s ''jpg'' \<or> str_includes s ''png''"

text \<open>
  The \<^verbatim>\<open>fileFilter\<close> option: \<open>None\<close> is \<^verbatim>\<open>cb(null, true)\<close>, \<open>Some e\<close> is \<^verbatim>\<open>cb(e)\<close>.
\<close>

definition fileFilter :: "upload_part \<Rightarrow> js_error option" where
  "fileFilter part =
     (let extname_ok = filetypes_test (toLowerCase (extname part));
          mimetype_ok = filetypes_test (mimetype part)
      in if mimetype_ok \<and> extname_ok then None else Some (Error ''Error: Images Only!''))"

definition fileSize :: nat where
  "fileSize = 10 * 1024 * 1024"

text \<open>
  Modelled from the spec: the library behind \<^verbatim>\<open>upload.single('image')\<close> (multer) is not
  under the sources; the options are those of lines 15 to 38. As in section 4.2 of the
  spec, the middleware checks the type through the file filter and the size against
  \<^verbatim>\<open>limits.fileSize\<close>, and stores an accepted file under \<^verbatim>\<open>uploads/\<close> with the name
  \<^verbatim>\<open>Date.now() + extname\<close>; a form without the part passes with \<^verbatim>\<open>req.file\<close>
  undefined. The size error is multer's \<^verbatim>\<open>LIMIT_FILE_SIZE\<close> with the message
  \<^verbatim>\<open>File too large\<close>. How an error leaves the middleware is not in the spec and is taken
  from multer's documentation: "When encountering an error, Multer will delegate the
  error to Express". The \<open>Inl\<close> result is that call of \<^verbatim>\<open>next(err)\<close>: the error is
  not thrown inside the route handler, whose \<^verbatim>\<open>try\<close> block (line 56) encloses the body
  of the handler function only.
\<close>

definition upload_single :: "nat \<Rightarrow> upload_part option \<Rightarrow> js_error + stored_file option" where
  "upload_single now image_part =
     (case image_part of
        None \<Rightarrow> Inr None
      | Some part \<Rightarrow>
          (case fileFilter part of
             Some e \<Rightarrow> Inl e
           | None \<Rightarrow>
               if fileSize < size_bytes part then
                 Inl (MulterError ''LIMIT_FILE_SIZE'' ''File too large'')
               else Inr (Some \<lparr>path = ''uploads/'' @ show_nat now @ extname part\<rparr>)))"

text \<open>
  The program registers no error-handling middleware, so an error passed to
  \<^verbatim>\<open>next\<close> reaches the built-in error handler of Express, which is not under the
  sources and not described by the spec. By the documentation of Express, that handler
  answers with the error's \<^verbatim>\<open>status\<close> (or \<^verbatim>\<open>statusCode\<close>) when it lies in the 4xx or
  5xx range and with 500 otherwise, and writes an error page, not JSON. The errors of
  this program carry no status.
\<close>

definition default_error_handler :: "js_error \<Rightarrow> response" where
  "default_error_handler err = Default_error_page 500 err"

record http_request =
  client_ip :: string
  image_field :: "upload_part option"
  form_fields :: body

text \<open>
  The route \<^verbatim>\<open>app.post('/api/process-image', upload.single('image'), handler)\<close>: the
  handler runs only when the upload middleware has passed the request on. The result is
  the response, the files left in the upload directory and the client calls made.
\<close>

definition post_process_image ::
  "nat \<Rightarrow> props \<Rightarrow> provider \<Rightarrow> http_request \<Rightarrow> response \<times> string list \<times> call list" where
  "post_process_image now comfyuiWorkflows axios_post rq =
     (case upload_single now (image_field rq) of
        Inl err \<Rightarrow> (default_error_handler err, [], [])
      | Inr f \<Rightarrow>
          (let (res, calls) =
                 handler comfyuiWorkflows axios_post \<lparr>req_file = f, req_body = form_fields rq\<rparr>
           in (res, (case f of None \<Rightarrow> [] | Some sf \<Rightarrow> [path sf]), calls)))"

section \<open>The rate limiter and the service\<close>

record limiter_options =
  windowMs :: nat
  max_opt :: nat
  message_opt :: string

text \<open>The options of lines 46 to 50.\<close>

definition limiter_opts :: limiter_options where
  "limiter_opts =
     \<lparr>windowMs = 120 * 1000, max_opt = 10,
      message_opt = ''Too many requests, please try again later.''\<rparr>"

text \<open>For each client address, the hits counted in its current window and the time the window ends.\<close>

type_synonym hit_store = "string \<Rightarrow> (nat \<times> nat) option"

text \<open>
  Modelled from the spec: the middleware made by \<^verbatim>\<open>rateLimit\<close> (the package
  express-rate-limit) is not under the sources. It is a fixed-window counter for each
  client address: the first request of an address opens a window of \<open>windowMs\<close>
  milliseconds, each request in the window is counted, and once the count exceeds
  \<open>max\<close> the request is answered with status 429 and the message, and is not passed on.
  Time is the clock reading in milliseconds at the arrival of the request.
\<close>

definition limiter :: "hit_store \<Rightarrow> nat \<Rightarrow> string \<Rightarrow> hit_store \<times> response option" where
  "limiter store now key =
     (let (hits, resetTime) =
            (case store key of
               None \<Rightarrow> (1, now + windowMs limiter_opts)
             | Some (h, r) \<Rightarrow> if now < r then (h + 1, r) else (1, now + windowMs limiter_opts));
          store' = store(key \<mapsto> (hits, resetTime))
      in if max_opt limiter_opts < hits
         then (store', Some (Plain 429 (message_opt limiter_opts)))
         else (store', None))"

text \<open>
  Where a request is addressed: to \<^verbatim>\<open>POST /api/process-image\<close>, or to a path outside
  \<^verbatim>\<open>/api/process-image\<close>, for which the program has no route.
\<close>

datatype target = Process_image | Elsewhere

text \<open>
  The application: \<^verbatim>\<open>app.use('/api/process-image', limiter)\<close> followed by the route.
  The limiter is mounted on the path, so a request elsewhere does not reach it.
\<close>

definition service ::
  "hit_store \<Rightarrow> nat \<Rightarrow> props \<Rightarrow> provider \<Rightarrow> target \<Rightarrow> http_request
     \<Rightarrow> hit_store \<times> response \<times> string list \<times> call list" where
  "service store now comfyuiWorkflows axios_post tgt rq =
     (case tgt of
        Elsewhere \<Rightarrow> (store, Not_found, [], [])
      | Process_image \<Rightarrow>
          (case limiter store now (client_ip rq) of
             (store', Some throttled) \<Rightarrow> (store', throttled, [], [])
           | (store', None) \<Rightarrow>
               (store', post_process_image now comfyuiWorkflows axios_post rq)))"

text \<open>A run of the service over requests in their order of arrival, each with its arrival time.\<close>

fun serve ::
  "hit_store \<Rightarrow> props \<Rightarrow> provider \<Rightarrow> (nat \<times> target \<times> http_request) list
     \<Rightarrow> (response \<times> string list \<times> call list) list" where
  "serve store comfyuiWorkflows axios_post [] = []"
| "serve store comfyuiWorkflows axios_post ((now, tgt, rq) # rest) =
     (case service store now comfyuiWorkflows axios_post tgt rq of
        (store', result) \<Rightarrow> result # serve store' comfyuiWorkflows axios_post rest)"

text \<open>The requests of one address that the limiter let through to the route, in a run.\<close>

definition admitted ::
  "string \<Rightarrow> (nat \<times> target \<times> http_request) list
     \<Rightarrow> (response \<times> string list \<times> call list) list
     \<Rightarrow> ((nat \<times> target \<times> http_request) \<times> (response \<times> string list \<times> call list)) list" where
  "admitted a reqs results =
     filter (\<lambda>((now, tgt, rq), (res, stored, calls)).
               client_ip rq = a \<and> tgt = Process_image
               \<and> res \<noteq> Plain 429 (message_opt limiter_opts))
       (zip reqs results)"

section \<open>Sample data\<close>

text \<open>A registry with one workflow, and providers that answer each call in a fixed way.\<close>

definition sample_workflows :: props where
  "sample_workflows =
     [(''enhance'',
       JObj [(''function'', JStr ''enhance''),
             (''params'', JObj [(''a'', JNum 1), (''b'', JNum 2)])])]"

definition sample_provider :: "reply \<Rightarrow> reply \<Rightarrow> provider" where
  "sample_provider create_reply outputs_reply p =
     (case p of
        Post_upload filePath \<Rightarrow>
          Resolved \<lparr>code = 0, msg = None, data = JObj [(''fileUrl'', JStr ''http://p/in.png'')]\<rparr>
      | Post_create w k ns \<Rightarrow> create_reply
      | Post_outputs t k \<Rightarrow> outputs_reply)"

definition task_created :: reply where
  "task_created = Resolved \<lparr>code = 0, msg = None, data = JObj [(''taskId'', JStr ''t1'')]\<rparr>"

definition one_output :: reply where
  "one_output =
     Resolved \<lparr>code = 0, msg = None,
               data = JArr [JObj [(''fileUrl'', JStr ''http://p/out.png'')]]\<rparr>"

definition no_outputs :: reply where
  "no_outputs = Resolved \<lparr>code = 0, msg = None, data = JArr []\<rparr>"

definition sample_request :: "string \<Rightarrow> jsval \<Rightarrow> request" where
  "sample_request ft overrides =
     \<lparr>req_file = Some \<lparr>path = ''uploads/7.png''\<rparr>,
      req_body = \<lparr>functionType = Some ft, processingParams = overrides\<rparr>\<rparr>"

definition sample_upload :: "string \<Rightarrow> string \<Rightarrow> nat \<Rightarrow> http_request" where
  "sample_upload ext mime n =
     \<lparr>client_ip = ''10.0.0.1'',
      image_field = Some \<lparr>extname = ext, mimetype = mime, size_bytes = n\<rparr>,
      form_fields = \<lparr>functionType = Some ''enhance'', processingParams = JUndefined\<rparr>\<rparr>"

definition bad_workflow :: reply where
  "bad_workflow = Resolved \<lparr>code = 1, msg = Some ''bad workflow'', data = JUndefined\<rparr>"

definition too_large :: reply where
  "too_large = Resolved \<lparr>code = 1, msg = Some ''File too large'', data = JUndefined\<rparr>"

text \<open>
  Eleven requests of one address in eleven seconds, and stores in which the window of
  that address has two hits and ten hits.
\<close>

definition burst_rest :: "(nat \<times> target \<times> http_request) list" where
  "burst_rest =
     map (\<lambda>now. (now, Process_image, sample_upload ''.png'' ''image/png'' 1000))
       [1000, 2000, 3000, 4000, 5000, 6000, 7000, 8000, 9000, 10000]"

definition burst :: "(nat \<times> target \<times> http_request) list" where
  "burst = (0, Process_image, sample_upload ''.png'' ''image/png'' 1000) # burst_rest"

definition two_hits :: hit_store where
  "two_hits = (\<lambda>k. None)(''10.0.0.1'' \<mapsto> (2, 120000))"

definition full_window :: hit_store where
  "full_window = (\<lambda>k. None)(''10.0.0.1'' \<mapsto> (10, 120000))"

section \<open>Properties of the property lists\<close>

text \<open>Distinct indices have distinct decimal renderings.\<close>

lemma show_nat_nonempty: "show_nat n \<noteq> []"
  by (subst show_nat.simps) simp

lemma last_show_nat: "last (show_nat n) = digit_char (n mod 10)"
  by (subst show_nat.simps) simp

lemma butlast_show_nat: "butlast (show_nat n) = (if n < 10 then [] else show_nat (n div 10))"
  by (subst show_nat.simps) simp

lemma digit_char_inj: "a < 10 \<Longrightarrow> b < 10 \<Longrightarrow> digit_char a = digit_char b \<Longrightarrow> a = b"
proof -
  assume a: "a < 10" and b: "b < 10" and e: "digit_char a = digit_char b"
  have d: "distinct ''0123456789''" by simp
  have "length ''0123456789'' = 10" by simp
  with a b e d show "a = b"
    unfolding digit_char_def by (metis nth_eq_iff_index_eq)
qed

lemma show_nat_inj: "show_nat m = show_nat n \<Longrightarrow> m = n"
proof (induction m arbitrary: n rule: less_induct)
  case (less m)
  from less.prems have l: "digit_char (m mod 10) = digit_char (n mod 10)"
    by (metis last_show_nat)
  then have r: "m mod 10 = n mod 10"
    by (intro digit_char_inj) simp_all
  from less.prems have b: "butlast (show_nat m) = butlast (show_nat n)" by simp
  show ?case
  proof (cases "m < 10")
    case True
    with b have "n < 10"
      using show_nat_nonempty [of "n div 10"]
      by (auto simp: butlast_show_nat split: if_splits)
    with True r show ?thesis by simp
  next
    case False
    with b have n: "\<not> n < 10" and e: "show_nat (m div 10) = show_nat (n div 10)"
      using show_nat_nonempty [of "m div 10"]
      by (auto simp: butlast_show_nat split: if_splits)
    from False have "m div 10 < m" by simp
    from less.IH [OF this e] have "m div 10 = n div 10" .
    with r show ?thesis by (metis div_mult_mod_eq)
  qed
qed

lemma distinct_define_props:
  "distinct (map fst target) \<Longrightarrow> distinct (map fst (define_props ps target))"
  unfolding define_props_def
  by (induction ps arbitrary: target) (auto simp: distinct_update)

lemma map_of_define_props:
  "distinct (map fst ps) \<Longrightarrow> map_of (define_props ps target) = map_of target ++ map_of ps"
  unfolding define_props_def
proof (induction ps arbitrary: target)
  case Nil
  then show ?case by simp
next
  case (Cons p ps)
  obtain k v where p: "p = (k, v)" by (cases p)
  from Cons.prems p have k: "k \<notin> fst ` set ps" and d: "distinct (map fst ps)" by auto
  from k have none: "map_of ps k = None" by (simp add: map_of_eq_None_iff)
  have swap: "(map_of target)(k \<mapsto> v) ++ map_of ps = map_of target ++ map_of (p # ps)"
  proof (rule ext)
    fix x
    show "((map_of target)(k \<mapsto> v) ++ map_of ps) x = (map_of target ++ map_of (p # ps)) x"
      using none by (cases "x = k") (simp_all add: map_add_def p split: option.splits)
  qed
  have "map_of (fold (\<lambda>(k, v). AList.update k v) (p # ps) target)
          = map_of (fold (\<lambda>(k, v). AList.update k v) ps (AList.update k v target))"
    by (simp add: p)
  also have "\<dots> = map_of (AList.update k v target) ++ map_of ps"
    by (rule Cons.IH [OF d])
  also have "\<dots> = (map_of target)(k \<mapsto> v) ++ map_of ps"
    by (simp add: update_conv')
  finally show ?case
    by (simp only: swap)
qed

lemma distinct_indices: "distinct (map show_nat [0..<n])"
  by (simp add: distinct_map inj_on_def show_nat_inj)

lemma distinct_own_enumerable: "distinct (map fst (own_enumerable v))"
  by (cases v) (simp_all add: distinct_define_props distinct_indices)

lemma map_of_spread:
  "map_of (spread target src) = map_of target ++ map_of (own_enumerable src)"
  by (simp add: spread_def map_of_define_props distinct_own_enumerable)

text \<open>The three steps of a run that the later proofs lean on.\<close>

lemma handler_trace_cases:
  assumes "c \<in> set (snd (handler reg prov rq))"
  shows "\<exists>(f::stored_file) ft. req_file rq = Some f \<and> functionType (req_body rq) = Some ft
           \<and> ft \<noteq> [] \<and> truthy (property_value (JObj reg) ft)
           \<and> handler reg prov rq =
                 process_with prov (path f) (property_value (JObj reg) ft)
                   (processingParams (req_body rq))"
  using assms
  by (auto simp: handler_def Let_def split: option.splits if_splits)

lemma process_with_CreateTask:
  assumes "CreateTask fn p u \<in> set (snd (process_with prov fp w pp))"
  shows "p = spread (spread [] (property_value w ''params'')) pp
         \<and> fn = property_value w ''function''
         \<and> uploadImageToRunningHub prov fp = Inr u"
  using assms
  by (auto simp: process_with_def Let_def split: sum.splits)

lemma map_of_merged:
  "map_of (spread (spread [] d) pp) k =
     (case own_property pp k of Some v \<Rightarrow> Some v | None \<Rightarrow> own_property d k)"
  by (simp add: map_of_spread own_property_def map_add_def split: option.splits)

text \<open>The definitions that a run on concrete data unfolds.\<close>

lemmas eval_defs = handler_def process_with_def sample_workflows_def sample_provider_def
      task_created_def one_output_def sample_request_def spread_def define_props_def
      property_value_def own_property_def object_prototype_names_def
      uploadImageToRunningHub_def createTaskOnRunningHub_def getTaskResultFromRunningHub_def
      js_get_def new_Error_def show_nat.simps [of 0] digit_char_def no_outputs_def on_error_def
      cannot_read_def bad_workflow_def too_large_def res_json_def

lemma sample_run:
  "handler sample_workflows (sample_provider task_created one_output)
     (sample_request ''enhance'' (JObj [(''b'', JNum 9), (''c'', JNum 3)]))
   = (Json 200
        [(''status'', JStr ''completed''), (''resultUrl'', JStr ''http://p/out.png''),
         (''message'', JStr ''Image processed successfully'')],
      [UploadAsset ''uploads/7.png'',
       CreateTask (JStr ''enhance'') [(''a'', JNum 1), (''b'', JNum 9), (''c'', JNum 3)]
         (JStr ''http://p/in.png''),
       FetchResult (JStr ''t1'')])"
  by (simp add: eval_defs)

lemma process_with_FetchResult:
  assumes "FetchResult t \<in> set (snd (process_with prov fp w pp))"
  shows "fst (process_with prov fp w pp) =
           (case getTaskResultFromRunningHub prov t of
              Inl e \<Rightarrow> on_error e
            | Inr resultUrl \<Rightarrow>
                res_json 200 [(''status'', JStr ''completed''), (''resultUrl'', resultUrl),
                              (''message'', JStr ''Image processed successfully'')])"
  using assms
  by (auto simp: process_with_def Let_def split: sum.splits)

lemma process_with_create_failed:
  assumes "CreateTask fn p u \<in> set (snd (process_with prov fp w pp))"
    and "createTaskOnRunningHub prov fn p u = Inl e"
  shows "process_with prov fp w pp = (on_error e, [UploadAsset fp, CreateTask fn p u])"
  using assms
  by (auto simp: process_with_def Let_def split: sum.splits)

lemma process_with_calls_nonempty: "snd (process_with prov fp w pp) \<noteq> []"
  by (simp add: process_with_def Let_def split: sum.splits)

lemma process_with_first_call: "UploadAsset fp \<in> set (snd (process_with prov fp w pp))"
  by (simp add: process_with_def Let_def split: sum.splits)

lemma keys_define_props:
  "fst ` set (define_props ps target) = fst ` set ps \<union> fst ` set target"
  unfolding define_props_def
proof (induction ps arbitrary: target)
  case Nil
  then show ?case by simp
next
  case (Cons p ps)
  obtain k v where p: "p = (k, v)" by (cases p)
  have "fst ` set (fold (\<lambda>(k, v). AList.update k v) (p # ps) target)
          = fst ` set ps \<union> fst ` set (AList.update k v target)"
    using Cons.IH [of "AList.update k v target"] by (simp add: p)
  also have "\<dots> = fst ` set ps \<union> ({k} \<union> fst ` set target)"
    by (simp only: dom_update)
  finally show ?case
    by (auto simp: p)
qed

lemma own_property_absent:
  "k \<notin> fst ` set ms \<Longrightarrow> own_property (JObj ms) k = None"
  by (simp add: own_property_def map_of_eq_None_iff keys_define_props)

lemma first_element:
  "js_get (JArr (x # xs)) (show_nat 0) = Inr x"
proof -
  have "own_enumerable (JArr (x # xs))
          = (show_nat 0, x) # zip (map show_nat [Suc 0..<Suc (length xs)]) xs"
    by (simp add: upt_conv_Cons del: upt_Suc)
  then show ?thesis
    by (simp add: js_get_def property_value_def own_property_def)
qed

lemma no_element:
  "js_get (JArr []) (show_nat 0) = Inr JUndefined"
  by (simp add: js_get_def property_value_def own_property_def object_prototype_names_def
      show_nat.simps digit_char_def)

lemma type_error_response:
  "on_error (TypeError (cannot_read ''undefined'' ''fileUrl'')) =
     Json 500 [(''error'', JStr ''Internal Server Error''),
               (''message'', JStr (cannot_read ''undefined'' ''fileUrl''))]"
  by (simp add: on_error_def cannot_read_def)

lemma on_error_not_plain: "on_error e \<noteq> Plain n s"
  by (simp add: on_error_def)

lemma process_with_not_plain: "fst (process_with prov fp w pp) \<noteq> Plain n s"
  by (simp add: process_with_def Let_def on_error_not_plain res_json_def split: sum.splits)

lemma handler_not_plain: "fst (handler reg prov rq) \<noteq> Plain n s"
  by (simp add: handler_def Let_def process_with_not_plain split: option.splits)

lemma post_process_image_not_plain: "fst (post_process_image now reg prov rq) \<noteq> Plain n s"
proof (cases "upload_single now (image_field rq)")
  case (Inl err)
  then show ?thesis
    by (simp add: post_process_image_def default_error_handler_def)
next
  case (Inr f)
  then have "fst (post_process_image now reg prov rq)
               = fst (handler reg prov \<lparr>req_file = f, req_body = form_fields rq\<rparr>)"
    by (simp add: post_process_image_def split: prod.splits)
  then show ?thesis
    by (simp add: handler_not_plain)
qed

text \<open>Runs of the handler on the sample data.\<close>

lemma sample_run_defaults:
  "handler sample_workflows (sample_provider task_created one_output)
     (sample_request ''enhance'' JUndefined)
   = (Json 200
        [(''status'', JStr ''completed''), (''resultUrl'', JStr ''http://p/out.png''),
         (''message'', JStr ''Image processed successfully'')],
      [UploadAsset ''uploads/7.png'',
       CreateTask (JStr ''enhance'') [(''a'', JNum 1), (''b'', JNum 2)]
         (JStr ''http://p/in.png''),
       FetchResult (JStr ''t1'')])"
  by (simp add: eval_defs)

lemma sample_run_bad_workflow:
  "handler sample_workflows (sample_provider bad_workflow one_output)
     (sample_request ''enhance'' JUndefined)
   = (Json 500
        [(''error'', JStr ''Internal Server Error''), (''message'', JStr ''bad workflow'')],
      [UploadAsset ''uploads/7.png'',
       CreateTask (JStr ''enhance'') [(''a'', JNum 1), (''b'', JNum 2)]
         (JStr ''http://p/in.png'')])"
  by (simp add: eval_defs)

lemma sample_run_too_large:
  "handler sample_workflows (sample_provider too_large one_output)
     (sample_request ''enhance'' JUndefined)
   = (Json 413
        [(''error'', JStr ''File size exceeds limit''), (''message'', JStr ''File too large'')],
      [UploadAsset ''uploads/7.png'',
       CreateTask (JStr ''enhance'') [(''a'', JNum 1), (''b'', JNum 2)]
         (JStr ''http://p/in.png'')])"
  by (simp add: eval_defs)

lemma sample_run_no_outputs:
  "snd (handler sample_workflows (sample_provider task_created no_outputs)
     (sample_request ''enhance'' JUndefined))
   = [UploadAsset ''uploads/7.png'',
       CreateTask (JStr ''enhance'') [(''a'', JNum 1), (''b'', JNum 2)]
         (JStr ''http://p/in.png''),
       FetchResult (JStr ''t1'')]"
  by (simp add: eval_defs)

text \<open>The limiter, one request at a time, and over a run.\<close>

lemma limiter_other_key: "key \<noteq> a \<Longrightarrow> fst (limiter store now key) a = store a"
  by (simp add: limiter_def Let_def split: option.splits prod.splits)

lemma limiter_in_window:
  "store a = Some (h, r) \<Longrightarrow> now < r \<Longrightarrow>
     limiter store now a =
       (store(a \<mapsto> (h + 1, r)),
        if 10 < h + 1 then Some (Plain 429 ''Too many requests, please try again later.'')
        else None)"
  by (simp add: limiter_def limiter_opts_def)

lemma limiter_fresh:
  "store a = None \<Longrightarrow> limiter store now a = (store(a \<mapsto> (1, now + 120000)), None)"
  by (simp add: limiter_def limiter_opts_def)

lemma limiter_new_window:
  "store a = None \<or> (\<exists>h r. store a = Some (h, r) \<and> r \<le> now) \<Longrightarrow>
     limiter store now a = (store(a \<mapsto> (1, now + 120000)), None)"
  by (auto simp: limiter_def limiter_opts_def)

lemma service_throttled_no_effects:
  assumes "service store now reg prov tgt rq = (store', res, stored, calls)"
    and "res = Plain 429 (message_opt limiter_opts)"
  shows "stored = [] \<and> calls = []"
proof (cases tgt)
  case Elsewhere
  with assms show ?thesis by (simp add: service_def)
next
  case Process_image
  show ?thesis
  proof (cases "snd (limiter store now (client_ip rq))")
    case None
    with assms Process_image
    have "fst (post_process_image now reg prov rq) = Plain 429 (message_opt limiter_opts)"
      by (auto simp: service_def split: prod.splits)
    with post_process_image_not_plain show ?thesis by blast
  next
    case (Some t)
    with assms Process_image show ?thesis
      by (auto simp: service_def split: prod.splits)
  qed
qed

lemma serve_throttled_no_effects:
  "(res, stored, calls) \<in> set (serve store reg prov reqs) \<Longrightarrow>
   res = Plain 429 (message_opt limiter_opts) \<Longrightarrow> stored = [] \<and> calls = []"
proof (induction reqs arbitrary: store)
  case Nil
  then show ?case by simp
next
  case (Cons q reqs)
  obtain now tgt rq where q: "q = (now, tgt, rq)" by (cases q)
  obtain store' res' stored' calls' where
    s: "service store now reg prov tgt rq = (store', res', stored', calls')"
    by (cases "service store now reg prov tgt rq")
  from Cons.prems(1) q s
  consider "(res, stored, calls) = (res', stored', calls')"
    | "(res, stored, calls) \<in> set (serve store' reg prov reqs)"
    by auto
  then show ?case
  proof cases
    case 1
    with s Cons.prems(2) service_throttled_no_effects [of store now reg prov tgt rq store' res' stored' calls']
    show ?thesis by simp
  next
    case 2
    with Cons.IH Cons.prems(2) show ?thesis by blast
  qed
qed

lemma admitted_in_window:
  assumes "store a = Some (h, r)"
    and "\<forall>(now, tgt, rq) \<in> set reqs. client_ip rq = a \<and> tgt = Process_image \<longrightarrow> now < r"
  shows "length (admitted a reqs (serve store reg prov reqs)) \<le> 10 - h"
  using assms
proof (induction reqs arbitrary: store h)
  case Nil
  then show ?case by (simp add: admitted_def)
next
  case (Cons q reqs)
  obtain now tgt rq where q: "q = (now, tgt, rq)" by (cases q)
  from Cons.prems(2) have rest: "\<forall>(now, tgt, rq) \<in> set reqs. client_ip rq = a \<and> tgt = Process_image \<longrightarrow> now < r"
    by simp
  show ?case
  proof (cases "client_ip rq = a \<and> tgt = Process_image")
    case False
    obtain store' result where s: "service store now reg prov tgt rq = (store', result)"
      by (cases "service store now reg prov tgt rq")
    from False s have "store' a = store a"
      using limiter_other_key [of "client_ip rq" a store now]
      by (cases tgt) (auto simp: service_def split: prod.splits option.splits)
    with Cons.prems(1) have "store' a = Some (h, r)" by simp
    from Cons.IH [of store' h, OF this rest]
    have "length (admitted a reqs (serve store' reg prov reqs)) \<le> 10 - h" .
    moreover from False q s
    have "admitted a (q # reqs) (serve store reg prov (q # reqs))
            = admitted a reqs (serve store' reg prov reqs)"
      by (auto simp: admitted_def split: prod.splits)
    ultimately show ?thesis by simp
  next
    case True
    with Cons.prems(2) q have now: "now < r" by simp
    let ?store' = "store(a \<mapsto> (h + 1, r))"
    from True Cons.prems(1) now
    have l: "limiter store now (client_ip rq) =
               (?store',
                if 10 < h + 1 then Some (Plain 429 ''Too many requests, please try again later.'')
                else None)"
      by (simp add: limiter_in_window)
    have "?store' a = Some (h + 1, r)" by simp
    from Cons.IH [of ?store' "h + 1", OF this rest]
    have ih: "length (admitted a reqs (serve ?store' reg prov reqs)) \<le> 10 - (h + 1)" .
    show ?thesis
    proof (cases "10 < h + 1")
      case over: True
      with True q l
      have "admitted a (q # reqs) (serve store reg prov (q # reqs))
              = admitted a reqs (serve ?store' reg prov reqs)"
        by (simp add: admitted_def service_def limiter_opts_def)
      with ih show ?thesis by simp
    next
      case under: False
      with True q l
      have "length (admitted a (q # reqs) (serve store reg prov (q # reqs)))
              \<le> Suc (length (admitted a reqs (serve ?store' reg prov reqs)))"
        by (simp add: admitted_def service_def split: prod.splits)
      with ih under show ?thesis by simp
    qed
  qed
qed

lemma serve_fresh:
  "store (client_ip rq) = None \<Longrightarrow>
     serve store reg prov ((now, Process_image, rq) # rest)
       = post_process_image now reg prov rq
           # serve (store(client_ip rq \<mapsto> (1, now + 120000))) reg prov rest"
  by (simp add: service_def limiter_fresh)

lemma serve_counted:
  "now < r \<Longrightarrow> client_ip rq = a \<Longrightarrow>
     serve (store(a \<mapsto> (h, r))) reg prov ((now, Process_image, rq) # rest)
       = (if 10 < h + 1 then (Plain 429 ''Too many requests, please try again later.'', [], [])
          else post_process_image now reg prov rq)
           # serve (store(a \<mapsto> (h + 1, r))) reg prov rest"
  using limiter_in_window [of "store(a \<mapsto> (h, r))" a h r now]
  by (simp add: service_def)

lemma png_upload_response:
  "fst (post_process_image now sample_workflows (sample_provider task_created one_output)
     (sample_upload ''.png'' ''image/png'' 1000))
   = Json 200
        [(''status'', JStr ''completed''), (''resultUrl'', JStr ''http://p/out.png''),
         (''message'', JStr ''Image processed successfully'')]"
  by (simp add: post_process_image_def upload_single_def sample_upload_def fileFilter_def
        filetypes_test_def toLowerCase_def lower_char_def fileSize_def)
     (simp add: eval_defs)

lemma burst_responses:
  "map fst (serve (\<lambda>k. None) sample_workflows (sample_provider task_created one_output) burst)
   = replicate 10 (Json 200
        [(''status'', JStr ''completed''), (''resultUrl'', JStr ''http://p/out.png''),
         (''message'', JStr ''Image processed successfully'')])
     @ [Plain 429 ''Too many requests, please try again later.'']"
proof -
  have ip: "client_ip (sample_upload ''.png'' ''image/png'' 1000) = ''10.0.0.1''"
    by (simp add: sample_upload_def)
  have ten: "replicate 10 x = [x, x, x, x, x, x, x, x, x, x]" for x :: response
    by (simp add: numeral_eq_Suc)
  show ?thesis
    unfolding burst_def burst_rest_def list.map ten
    by (simp add: serve_fresh serve_counted ip png_upload_response del: serve.simps(2))
qed


section \<open>The claims\<close>

text \<open>
  The handler does compute the merged parameter set: the \<open>params\<close> argument of every
  call of the create-task function is the resolved workflow's \<^verbatim>\<open>params\<close> overridden
  key by key by \<^verbatim>\<open>processingParams\<close>.
\<close>

lemma handler_merges_params:
  assumes "CreateTask fn p u \<in> set (snd (handler reg prov rq))"
  shows "\<exists>ft. functionType (req_body rq) = Some ft \<and>
           (\<forall>k. map_of p k =
              (case own_property (processingParams (req_body rq)) k of
                 Some v \<Rightarrow> Some v
               | None \<Rightarrow>
                   own_property (property_value (property_value (JObj reg) ft) ''params'') k))"
proof -
  from handler_trace_cases [OF assms]
  obtain f :: stored_file and ft where ft: "functionType (req_body rq) = Some ft"
    and h: "handler reg prov rq =
              process_with prov (path f) (property_value (JObj reg) ft)
                (processingParams (req_body rq))"
    by blast
  from assms h have "p = spread (spread [] (property_value (property_value (JObj reg) ft) ''params''))
                         (processingParams (req_body rq))"
    by (simp add: process_with_CreateTask)
  with ft show ?thesis
    by (simp add: map_of_merged)
qed

text \<open>
  The create-task function does not read it. Its outcome is the same for any two
  parameter sets and function identifiers, whatever the provider answers to the request
  it receives; so is the response of the handler.
\<close>

lemma create_task_reads_image_only:
  "createTaskOnRunningHub axios_post fn p imageUrl
     = createTaskOnRunningHub axios_post fn' p' imageUrl"
  by (simp add: createTaskOnRunningHub_def)

lemma process_with_response_ignores_params:
  "fst (process_with axios_post filePath w pp) = fst (process_with axios_post filePath w' pp')"
  by (simp add: process_with_def Let_def createTaskOnRunningHub_def split: sum.splits)

text \<open>
  C1, evaluated at a request for the workflow \<^verbatim>\<open>enhance\<close> (defaults \<^verbatim>\<open>{a:1,b:2}\<close>) with
  \<^verbatim>\<open>processingParams = {b:9,c:3}\<close>. The merged set \<^verbatim>\<open>{a:1,b:9,c:3}\<close> is handed to
  \<^verbatim>\<open>createTaskOnRunningHub\<close>, which posts the fixed workflow identifier, the key and
  the image binding and nothing else: for every provider, the outcome of the create-task
  call is the same for any two parameter sets, and the response to this request is the
  response to the same request without overrides. The overrides do not reach the
  provider's create-task call.
\<close>

theorem create_task_drops_params:
  "createTaskOnRunningHub axios_post fn
       [(''a'', JNum 1), (''b'', JNum 9), (''c'', JNum 3)] imageUrl
     = createTaskOnRunningHub axios_post fn [] imageUrl
   \<and> fst (handler sample_workflows axios_post
             (sample_request ''enhance'' (JObj [(''b'', JNum 9), (''c'', JNum 3)])))
     = fst (handler sample_workflows axios_post (sample_request ''enhance'' JUndefined))"
proof -
  have w: "property_value (JObj sample_workflows) ''enhance''
             = JObj [(''function'', JStr ''enhance''),
                     (''params'', JObj [(''a'', JNum 1), (''b'', JNum 2)])]"
    by (simp add: sample_workflows_def property_value_def own_property_def define_props_def)
  have "fst (handler sample_workflows axios_post
               (sample_request ''enhance'' (JObj [(''b'', JNum 9), (''c'', JNum 3)])))
          = fst (handler sample_workflows axios_post (sample_request ''enhance'' JUndefined))"
    by (simp add: handler_def sample_request_def w)
       (rule process_with_response_ignores_params)
  then show ?thesis
    by (simp add: createTaskOnRunningHub_def)
qed

text \<open>
  C10, evaluated at a request for the workflow \<^verbatim>\<open>enhance\<close> without
  \<^verbatim>\<open>processingParams\<close>. Whatever the default parameters of the workflow are, and
  whatever the provider answers, the response is the one obtained from a registry whose
  workflow has no \<^verbatim>\<open>params\<close> at all: the defaults are merged and handed to
  \<^verbatim>\<open>createTaskOnRunningHub\<close>, which does not put them into its request, so they do not
  reach the provider's create-task call.
\<close>

theorem defaults_never_sent:
  "fst (handler [(''enhance'', JObj [(''function'', JStr ''enhance''), (''params'', defaults)])]
          axios_post (sample_request ''enhance'' JUndefined))
     = fst (handler [(''enhance'', JObj [(''function'', JStr ''enhance'')])]
             axios_post (sample_request ''enhance'' JUndefined))"
proof -
  have w: "property_value (JObj [(''enhance'', x)]) ''enhance'' = x" for x
    by (simp add: property_value_def own_property_def define_props_def)
  show ?thesis
    by (simp add: handler_def sample_request_def w)
       (rule process_with_response_ignores_params)
qed

text \<open>
  C2, as amended. When the create-task call was made and the provider answered it with a
  non-zero code, the fetch-result call is never made. The response is chosen by the text
  of the provider's message \<open>m\<close> (empty when \<^verbatim>\<open>msg\<close> is absent): it is HTTP 500 with
  \<^verbatim>\<open>error: "Internal Server Error"\<close> and \<open>m\<close> as the message field, provided that
  \<open>m\<close> is not \<^verbatim>\<open>Error: Images Only!\<close> and does not contain \<^verbatim>\<open>File too large\<close>.
\<close>

theorem create_failure_response:
  assumes "CreateTask fn p u \<in> set (snd (handler reg prov rq))"
    and "prov (Post_create ''YOUR_WORKFLOW_ID'' ''YOUR_API_KEY''
                 [\<lparr>nodeId = ''YOUR_NODE_ID'', fieldName = ''image'', fieldValue = u\<rparr>])
           = Resolved env"
    and "code env \<noteq> 0"
    and "m = (case msg env of None \<Rightarrow> [] | Some s \<Rightarrow> s)"
  shows "(\<forall>t. FetchResult t \<notin> set (snd (handler reg prov rq)))
         \<and> (m \<noteq> ''Error: Images Only!'' \<and> \<not> str_includes m ''File too large''
              \<longrightarrow> fst (handler reg prov rq) =
                    Json 500 [(''error'', JStr ''Internal Server Error''),
                              (''message'', JStr m)])"
proof -
  from handler_trace_cases [OF assms(1)]
  obtain f :: stored_file and ft where
    h: "handler reg prov rq =
              process_with prov (path f) (property_value (JObj reg) ft)
                (processingParams (req_body rq))"
    by blast
  have "createTaskOnRunningHub prov fn p u = Inl (Error m)"
    using assms(2-4) by (simp add: createTaskOnRunningHub_def new_Error_def)
  with assms(1) h have "handler reg prov rq = (on_error (Error m), [UploadAsset (path f), CreateTask fn p u])"
    by (simp add: process_with_create_failed)
  then show ?thesis
    by (simp add: on_error_def)
qed

theorem create_failure_response_witness:
  "CreateTask (JStr ''enhance'') [(''a'', JNum 1), (''b'', JNum 2)] (JStr ''http://p/in.png'')
     \<in> set (snd (handler sample_workflows (sample_provider bad_workflow one_output)
                  (sample_request ''enhance'' JUndefined)))
   \<and> sample_provider bad_workflow one_output
        (Post_create ''YOUR_WORKFLOW_ID'' ''YOUR_API_KEY''
           [\<lparr>nodeId = ''YOUR_NODE_ID'', fieldName = ''image'',
             fieldValue = JStr ''http://p/in.png''\<rparr>])
       = Resolved \<lparr>code = 1, msg = Some ''bad workflow'', data = JUndefined\<rparr>
   \<and> ''bad workflow'' \<noteq> ''Error: Images Only!''
   \<and> \<not> str_includes ''bad workflow'' ''File too large''
   \<and> (\<forall>t. FetchResult t \<notin> set (snd (handler sample_workflows
                (sample_provider bad_workflow one_output) (sample_request ''enhance'' JUndefined))))
   \<and> fst (handler sample_workflows (sample_provider bad_workflow one_output)
            (sample_request ''enhance'' JUndefined))
       = Json 500 [(''error'', JStr ''Internal Server Error''), (''message'', JStr ''bad workflow'')]"
proof -
  have m: "CreateTask (JStr ''enhance'') [(''a'', JNum 1), (''b'', JNum 2)] (JStr ''http://p/in.png'')
     \<in> set (snd (handler sample_workflows (sample_provider bad_workflow one_output)
                  (sample_request ''enhance'' JUndefined)))"
    by (simp add: sample_run_bad_workflow)
  have r: "sample_provider bad_workflow one_output
        (Post_create ''YOUR_WORKFLOW_ID'' ''YOUR_API_KEY''
           [\<lparr>nodeId = ''YOUR_NODE_ID'', fieldName = ''image'',
             fieldValue = JStr ''http://p/in.png''\<rparr>])
       = Resolved \<lparr>code = 1, msg = Some ''bad workflow'', data = JUndefined\<rparr>"
    by (simp add: sample_provider_def bad_workflow_def)
  have c: "code \<lparr>code = 1, msg = Some ''bad workflow'', data = JUndefined\<rparr> \<noteq> 0" by simp
  have e: "''bad workflow'' = (case msg \<lparr>code = 1, msg = Some ''bad workflow'', data = JUndefined\<rparr> of None \<Rightarrow> [] | Some s \<Rightarrow> s)"
    by simp
  have n: "''bad workflow'' \<noteq> ''Error: Images Only!''" "\<not> str_includes ''bad workflow'' ''File too large''"
    by simp_all
  from m r n create_failure_response [OF m r c e] show ?thesis by blast
qed

text \<open>
  C2 as stated fails: a provider reply \<^verbatim>\<open>{code: 1, msg: "File too large"}\<close> to the
  create-task call is answered with HTTP 413 and \<^verbatim>\<open>error: "File size exceeds limit"\<close>,
  not with HTTP 500, because the \<^verbatim>\<open>catch\<close> block matches on the message.
\<close>

theorem create_failure_status_counterexample:
  "CreateTask (JStr ''enhance'') [(''a'', JNum 1), (''b'', JNum 2)] (JStr ''http://p/in.png'')
     \<in> set (snd (handler sample_workflows (sample_provider too_large one_output)
                  (sample_request ''enhance'' JUndefined)))
   \<and> sample_provider too_large one_output
        (Post_create ''YOUR_WORKFLOW_ID'' ''YOUR_API_KEY''
           [\<lparr>nodeId = ''YOUR_NODE_ID'', fieldName = ''image'',
             fieldValue = JStr ''http://p/in.png''\<rparr>])
       = Resolved \<lparr>code = 1, msg = Some ''File too large'', data = JUndefined\<rparr>
   \<and> fst (handler sample_workflows (sample_provider too_large one_output)
            (sample_request ''enhance'' JUndefined))
       = Json 413 [(''error'', JStr ''File size exceeds limit''),
                   (''message'', JStr ''File too large'')]"
  by (simp add: sample_run_too_large) (simp add: sample_provider_def too_large_def)

text \<open>
  The fetch-result function raises an error of its own only for a non-zero code. With
  code 0 and an empty outputs array it reads \<^verbatim>\<open>fileUrl\<close> of \<^verbatim>\<open>undefined\<close>: the failure
  is the \<^verbatim>\<open>TypeError\<close> of that read, which the handler's \<^verbatim>\<open>catch\<close> block answers with
  HTTP 500.
\<close>

lemma nonzero_code_is_Error:
  assumes "prov (Post_outputs t ''YOUR_API_KEY'') = Resolved env"
    and "code env \<noteq> 0"
  shows "getTaskResultFromRunningHub prov t = Inl (new_Error (msg env))"
  using assms by (simp add: getTaskResultFromRunningHub_def)

lemma empty_outputs_fault:
  assumes "FetchResult t \<in> set (snd (handler reg prov rq))"
    and "prov (Post_outputs t ''YOUR_API_KEY'') = Resolved env"
    and "code env = 0"
    and "data env = JArr []"
  shows "getTaskResultFromRunningHub prov t = Inl (TypeError (cannot_read ''undefined'' ''fileUrl''))
         \<and> fst (handler reg prov rq) =
             Json 500 [(''error'', JStr ''Internal Server Error''),
                       (''message'', JStr (cannot_read ''undefined'' ''fileUrl''))]"
proof -
  from handler_trace_cases [OF assms(1)]
  obtain f :: stored_file and ft where
    h: "handler reg prov rq =
              process_with prov (path f) (property_value (JObj reg) ft)
                (processingParams (req_body rq))"
    by blast
  have g: "getTaskResultFromRunningHub prov t = Inl (TypeError (cannot_read ''undefined'' ''fileUrl''))"
    using assms(2-4) by (simp add: getTaskResultFromRunningHub_def no_element) (simp add: js_get_def)
  from assms(1) h g have "fst (handler reg prov rq) = on_error (TypeError (cannot_read ''undefined'' ''fileUrl''))"
    by (simp add: process_with_FetchResult)
  with g show ?thesis
    by (simp only: type_error_response)
qed

text \<open>
  C3, evaluated at a fetch-result response \<^verbatim>\<open>{code: 0, data: []}\<close>.
  \<^verbatim>\<open>getTaskResultFromRunningHub\<close> has no check for an empty array: it fails with the
  \<^verbatim>\<open>TypeError\<close> of reading \<^verbatim>\<open>fileUrl\<close> of \<^verbatim>\<open>undefined\<close>, not with an error that the
  function raises as it does for a non-zero code. The endpoint does answer with a defined
  response, HTTP 500 with \<^verbatim>\<open>error: "Internal Server Error"\<close> and the text of the
  \<^verbatim>\<open>TypeError\<close> as the message.
\<close>

theorem empty_outputs_type_error:
  "FetchResult (JStr ''t1'')
     \<in> set (snd (handler sample_workflows (sample_provider task_created no_outputs)
                  (sample_request ''enhance'' JUndefined)))
   \<and> sample_provider task_created no_outputs (Post_outputs (JStr ''t1'') ''YOUR_API_KEY'')
       = Resolved \<lparr>code = 0, msg = None, data = JArr []\<rparr>
   \<and> getTaskResultFromRunningHub (sample_provider task_created no_outputs) (JStr ''t1'')
       = Inl (TypeError (cannot_read ''undefined'' ''fileUrl''))
   \<and> fst (handler sample_workflows (sample_provider task_created no_outputs)
            (sample_request ''enhance'' JUndefined))
       = Json 500 [(''error'', JStr ''Internal Server Error''),
                   (''message'', JStr (cannot_read ''undefined'' ''fileUrl''))]"
proof -
  have m: "FetchResult (JStr ''t1'')
     \<in> set (snd (handler sample_workflows (sample_provider task_created no_outputs)
                  (sample_request ''enhance'' JUndefined)))"
    by (simp add: sample_run_no_outputs)
  have r: "sample_provider task_created no_outputs (Post_outputs (JStr ''t1'') ''YOUR_API_KEY'')
       = Resolved \<lparr>code = 0, msg = None, data = JArr []\<rparr>"
    by (simp add: sample_provider_def no_outputs_def)
  have c: "code \<lparr>code = 0, msg = None, data = JArr []\<rparr> = 0"
    and d: "data \<lparr>code = 0, msg = None, data = JArr []\<rparr> = JArr []"
    by simp_all
  from m r empty_outputs_fault [OF m r c d] show ?thesis by blast
qed

text \<open>
  C7. When the fetch-result call was made (the request passed validation and workflow
  lookup, and the upload and create-task calls succeeded) and the provider answered it
  with code 0 and a non-empty outputs array whose first element has a \<^verbatim>\<open>fileUrl\<close>
  (a value that is defined and not a function, so that the JSON body keeps it), the
  response is HTTP 200 with \<^verbatim>\<open>status: "completed"\<close>, with \<^verbatim>\<open>resultUrl\<close> equal to that
  \<^verbatim>\<open>fileUrl\<close>, and with a \<^verbatim>\<open>message\<close> field.
\<close>

theorem success_response:
  assumes "FetchResult t \<in> set (snd (handler reg prov rq))"
    and "prov (Post_outputs t ''YOUR_API_KEY'') = Resolved env"
    and "code env = 0"
    and "data env = JArr (out # rest)"
    and "js_get out ''fileUrl'' = Inr url"
    and "\<not> stringify_omits url"
  shows "fst (handler reg prov rq) =
           Json 200 [(''status'', JStr ''completed''), (''resultUrl'', url),
                     (''message'', JStr ''Image processed successfully'')]"
proof -
  from handler_trace_cases [OF assms(1)]
  obtain f :: stored_file and ft where
    h: "handler reg prov rq =
              process_with prov (path f) (property_value (JObj reg) ft)
                (processingParams (req_body rq))"
    by blast
  have g: "getTaskResultFromRunningHub prov t = Inr url"
    using assms(2-5) by (simp add: getTaskResultFromRunningHub_def first_element)
  from assms(1,6) h g show ?thesis
    by (simp add: process_with_FetchResult res_json_def)
qed

theorem success_response_witness:
  "FetchResult (JStr ''t1'')
     \<in> set (snd (handler sample_workflows (sample_provider task_created one_output)
                  (sample_request ''enhance'' JUndefined)))
   \<and> sample_provider task_created one_output (Post_outputs (JStr ''t1'') ''YOUR_API_KEY'')
       = Resolved \<lparr>code = 0, msg = None,
                   data = JArr [JObj [(''fileUrl'', JStr ''http://p/out.png'')]]\<rparr>
   \<and> js_get (JObj [(''fileUrl'', JStr ''http://p/out.png'')]) ''fileUrl''
       = Inr (JStr ''http://p/out.png'')
   \<and> \<not> stringify_omits (JStr ''http://p/out.png'')
   \<and> fst (handler sample_workflows (sample_provider task_created one_output)
            (sample_request ''enhance'' JUndefined))
       = Json 200 [(''status'', JStr ''completed''), (''resultUrl'', JStr ''http://p/out.png''),
                   (''message'', JStr ''Image processed successfully'')]"
proof -
  have m: "FetchResult (JStr ''t1'')
     \<in> set (snd (handler sample_workflows (sample_provider task_created one_output)
                  (sample_request ''enhance'' JUndefined)))"
    by (simp add: sample_run_defaults)
  have r: "sample_provider task_created one_output (Post_outputs (JStr ''t1'') ''YOUR_API_KEY'')
       = Resolved \<lparr>code = 0, msg = None,
                   data = JArr [JObj [(''fileUrl'', JStr ''http://p/out.png'')]]\<rparr>"
    by (simp add: sample_provider_def one_output_def)
  have c: "code \<lparr>code = 0, msg = None,
                   data = JArr [JObj [(''fileUrl'', JStr ''http://p/out.png'')]]\<rparr> = 0"
    and d: "data \<lparr>code = 0, msg = None,
                   data = JArr [JObj [(''fileUrl'', JStr ''http://p/out.png'')]]\<rparr>
            = JArr (JObj [(''fileUrl'', JStr ''http://p/out.png'')] # [])"
    by simp_all
  have g: "js_get (JObj [(''fileUrl'', JStr ''http://p/out.png'')]) ''fileUrl''
       = Inr (JStr ''http://p/out.png'')"
    by (simp add: js_get_def property_value_def own_property_def define_props_def)
  have k: "\<not> stringify_omits (JStr ''http://p/out.png'')" by simp
  from m r g k success_response [OF m r c d g k] show ?thesis by blast
qed

text \<open>
  When the first output has no \<^verbatim>\<open>fileUrl\<close>, the read yields \<^verbatim>\<open>undefined\<close> and the
  body is sent without a \<^verbatim>\<open>resultUrl\<close> member.
\<close>

lemma success_without_fileUrl:
  assumes "FetchResult t \<in> set (snd (handler reg prov rq))"
    and "prov (Post_outputs t ''YOUR_API_KEY'') = Resolved env"
    and "code env = 0"
    and "data env = JArr (out # rest)"
    and "js_get out ''fileUrl'' = Inr JUndefined"
  shows "fst (handler reg prov rq) =
           Json 200 [(''status'', JStr ''completed''),
                     (''message'', JStr ''Image processed successfully'')]"
proof -
  from handler_trace_cases [OF assms(1)]
  obtain f :: stored_file and ft where
    h: "handler reg prov rq =
              process_with prov (path f) (property_value (JObj reg) ft)
                (processingParams (req_body rq))"
    by blast
  have g: "getTaskResultFromRunningHub prov t = Inr JUndefined"
    using assms(2-5) by (simp add: getTaskResultFromRunningHub_def first_element)
  from assms(1) h g show ?thesis
    by (simp add: process_with_FetchResult res_json_def)
qed

text \<open>
  C9. For a request with a file and a non-empty \<^verbatim>\<open>functionType\<close>, the handler answers
  \<^verbatim>\<open>Invalid function type\<close> exactly when \<^verbatim>\<open>comfyuiWorkflows[functionType]\<close> is falsy.
  So a \<^verbatim>\<open>functionType\<close> that is not a member of the registry but names a property
  inherited from \<^verbatim>\<open>Object.prototype\<close>, such as \<^verbatim>\<open>toString\<close>, is not rejected: the
  handler goes on with the inherited value as the workflow and makes the upload call.
\<close>

theorem inherited_function_type:
  assumes "req_file rq = Some f"
    and "functionType (req_body rq) = Some ft"
    and "ft \<noteq> []"
  shows "(handler reg prov rq = (Json 400 [(''error'', JStr ''Invalid function type'')], [])
            \<longleftrightarrow> \<not> truthy (property_value (JObj reg) ft))
         \<and> (ft \<in> set object_prototype_names \<and> ft \<notin> fst ` set reg
              \<longrightarrow> property_value (JObj reg) ft = JBuiltin ft
                  \<and> handler reg prov rq =
                      process_with prov (path f) (JBuiltin ft) (processingParams (req_body rq))
                  \<and> UploadAsset (path f) \<in> set (snd (handler reg prov rq)))"
proof -
  have a: "handler reg prov rq = (Json 400 [(''error'', JStr ''Invalid function type'')], [])
            \<longleftrightarrow> \<not> truthy (property_value (JObj reg) ft)"
    using assms process_with_calls_nonempty [of prov "path f" "property_value (JObj reg) ft" "processingParams (req_body rq)"]
    by (auto simp: handler_def Let_def)
  have b: "property_value (JObj reg) ft = JBuiltin ft"
    if "ft \<in> set object_prototype_names" "ft \<notin> fst ` set reg"
    using that by (simp add: property_value_def own_property_absent)
  have c: "handler reg prov rq =
             process_with prov (path f) (JBuiltin ft) (processingParams (req_body rq))"
    if "ft \<in> set object_prototype_names" "ft \<notin> fst ` set reg"
    using assms b [OF that] by (simp add: handler_def)
  from a b c show ?thesis
    by (simp add: process_with_first_call)
qed

theorem inherited_function_type_witness:
  "req_file (sample_request ''toString'' JUndefined) = Some \<lparr>path = ''uploads/7.png''\<rparr>
   \<and> functionType (req_body (sample_request ''toString'' JUndefined)) = Some ''toString''
   \<and> ''toString'' \<in> set object_prototype_names
   \<and> ''toString'' \<notin> fst ` set sample_workflows
   \<and> truthy (property_value (JObj sample_workflows) ''toString'')
   \<and> handler sample_workflows (sample_provider task_created one_output)
         (sample_request ''toString'' JUndefined)
       \<noteq> (Json 400 [(''error'', JStr ''Invalid function type'')], [])
   \<and> handler sample_workflows (sample_provider task_created one_output)
         (sample_request ''toString'' JUndefined)
       = process_with (sample_provider task_created one_output) ''uploads/7.png''
           (JBuiltin ''toString'') JUndefined
   \<and> UploadAsset ''uploads/7.png''
       \<in> set (snd (handler sample_workflows (sample_provider task_created one_output)
                    (sample_request ''toString'' JUndefined)))"
proof -
  have f: "req_file (sample_request ''toString'' JUndefined) = Some \<lparr>path = ''uploads/7.png''\<rparr>"
    and t: "functionType (req_body (sample_request ''toString'' JUndefined)) = Some ''toString''"
    and p: "processingParams (req_body (sample_request ''toString'' JUndefined)) = JUndefined"
    by (simp_all add: sample_request_def)
  have n: "''toString'' \<noteq> []" by simp
  have i: "''toString'' \<in> set object_prototype_names"
    by (simp add: object_prototype_names_def)
  have o: "''toString'' \<notin> fst ` set sample_workflows"
    by (simp add: sample_workflows_def)
  from inherited_function_type [OF f t n, of sample_workflows "sample_provider task_created one_output"] f t p i o
  show ?thesis by auto
qed

text \<open>
  C6, as amended. For a request that has an uploaded file and a non-empty
  \<^verbatim>\<open>functionType\<close> that is neither a member of the registry nor a name inherited from
  \<^verbatim>\<open>Object.prototype\<close>, the handler answers HTTP 400 with
  \<^verbatim>\<open>error: "Invalid function type"\<close> and makes no call to the provider.
\<close>

theorem unknown_function_type_rejected:
  assumes "req_file rq = Some f"
    and "functionType (req_body rq) = Some ft"
    and "ft \<noteq> []"
    and "ft \<notin> fst ` set reg"
    and "ft \<notin> set object_prototype_names"
  shows "handler reg prov rq = (Json 400 [(''error'', JStr ''Invalid function type'')], [])"
  using assms by (simp add: handler_def property_value_def own_property_absent)

theorem unknown_function_type_rejected_witness:
  "req_file (sample_request ''nonexistent'' JUndefined) = Some \<lparr>path = ''uploads/7.png''\<rparr>
   \<and> functionType (req_body (sample_request ''nonexistent'' JUndefined)) = Some ''nonexistent''
   \<and> ''nonexistent'' \<notin> fst ` set sample_workflows
   \<and> ''nonexistent'' \<notin> set object_prototype_names
   \<and> handler sample_workflows (sample_provider task_created one_output)
         (sample_request ''nonexistent'' JUndefined)
       = (Json 400 [(''error'', JStr ''Invalid function type'')], [])"
proof -
  have f: "req_file (sample_request ''nonexistent'' JUndefined) = Some \<lparr>path = ''uploads/7.png''\<rparr>"
    and t: "functionType (req_body (sample_request ''nonexistent'' JUndefined)) = Some ''nonexistent''"
    by (simp_all add: sample_request_def)
  have n: "''nonexistent'' \<noteq> []" by simp
  have i: "''nonexistent'' \<notin> set object_prototype_names"
    by (simp add: object_prototype_names_def)
  have o: "''nonexistent'' \<notin> fst ` set sample_workflows"
    by (simp add: sample_workflows_def)
  from f t o i unknown_function_type_rejected [OF f t n o i] show ?thesis by blast
qed

text \<open>
  C6 as stated fails: a request without a file whose \<^verbatim>\<open>functionType\<close> is not in the
  registry is answered with \<^verbatim>\<open>error: "No file uploaded"\<close>, since the handler checks
  the file first.
\<close>

theorem unknown_function_type_counterexample:
  "''nonexistent'' \<notin> fst ` set sample_workflows
   \<and> handler sample_workflows (sample_provider task_created one_output)
        \<lparr>req_file = None,
         req_body = \<lparr>functionType = Some ''nonexistent'', processingParams = JUndefined\<rparr>\<rparr>
       = (Json 400 [(''error'', JStr ''No file uploaded'')], [])"
  by (simp add: sample_workflows_def handler_def)

text \<open>
  C4, evaluated at an upload of 11 MiB with an allowed type. The size limit makes the
  upload middleware pass the error \<^verbatim>\<open>File too large\<close> to \<^verbatim>\<open>next\<close>; the handler and its
  \<^verbatim>\<open>catch\<close> block, which holds the branch for HTTP 413, do not run, and the built-in
  error handler answers with HTTP 500. No file is kept and no provider call is made.
\<close>

theorem oversized_upload_response:
  "post_process_image now reg prov (sample_upload ''.png'' ''image/png'' (11 * 1024 * 1024))
     = (Default_error_page 500 (MulterError ''LIMIT_FILE_SIZE'' ''File too large''), [], [])"
  by (simp add: post_process_image_def upload_single_def sample_upload_def fileFilter_def
      filetypes_test_def toLowerCase_def lower_char_def fileSize_def default_error_handler_def)

text \<open>
  C5, evaluated at the upload of a \<^verbatim>\<open>.gif\<close> file declared as \<^verbatim>\<open>image/gif\<close>. The file
  filter rejects it with \<^verbatim>\<open>Error: Images Only!\<close>, which the upload middleware passes to
  \<^verbatim>\<open>next\<close>; the handler and its \<^verbatim>\<open>catch\<close> block, which holds the branch for HTTP 400
  \<^verbatim>\<open>Invalid file format\<close>, do not run, and the built-in error handler answers with
  HTTP 500. No file is kept and no provider call is made.
\<close>

theorem gif_upload_response:
  "post_process_image now reg prov (sample_upload ''.gif'' ''image/gif'' 1000)
     = (Default_error_page 500 (Error ''Error: Images Only!''), [], [])"
  by (simp add: post_process_image_def upload_single_def sample_upload_def fileFilter_def
      filetypes_test_def toLowerCase_def lower_char_def fileSize_def default_error_handler_def)

text \<open>
  C8. The limiter is mounted on \<^verbatim>\<open>/api/process-image\<close> only: a request elsewhere
  leaves the counters as they are. For a request to the endpoint, three cases: when its
  address has no window or the window has ended, a window of 120 seconds opens with
  this request as its first hit and the request goes to the route; when the window runs
  and holds fewer than 10 hits, the request is counted and goes to the route; when the
  window runs and holds 10 hits or more, the request is answered with status 429 and the
  message \<^verbatim>\<open>Too many requests, please try again later.\<close>, and neither the upload
  middleware nor the handler runs. Hence, over a run of requests: of the requests of an
  address that arrive in one window, from the request that opens it (for an address
  without a window or with one that has ended) to the window's end, at most 10 go to the
  route; from any point in a running window with \<open>h\<close> hits, at most \<open>10 - h\<close> more do;
  and every request answered with the throttling message stores no file and makes no
  provider call.
\<close>

theorem rate_limit_window:
  "(client_ip rq0 = a
      \<and> (store a = None \<or> (\<exists>h0 r0. store a = Some (h0, r0) \<and> r0 \<le> t0))
      \<and> (\<forall>(now, tgt, rq) \<in> set rest.
             client_ip rq = a \<and> tgt = Process_image \<longrightarrow> now < t0 + 120000)
     \<longrightarrow> length (admitted a ((t0, Process_image, rq0) # rest)
                  (serve store reg prov ((t0, Process_image, rq0) # rest))) \<le> 10)
   \<and> (running a = Some (h1, r1)
      \<and> (\<forall>(now, tgt, rq) \<in> set reqs.
             client_ip rq = a \<and> tgt = Process_image \<longrightarrow> now < r1)
     \<longrightarrow> length (admitted a reqs (serve running reg prov reqs)) \<le> 10 - h1)
   \<and> (\<forall>(res, stored, calls) \<in> set (serve store reg prov reqs).
         res = Plain 429 ''Too many requests, please try again later.''
           \<longrightarrow> stored = [] \<and> calls = [])
   \<and> (st (client_ip rq) = None \<or> (\<exists>h0 r0. st (client_ip rq) = Some (h0, r0) \<and> r0 \<le> now)
     \<longrightarrow> service st now reg prov Process_image rq =
           (st(client_ip rq \<mapsto> (1, now + 120000)), post_process_image now reg prov rq))
   \<and> (st (client_ip rq) = Some (h, r) \<and> now < r \<and> h < 10
     \<longrightarrow> service st now reg prov Process_image rq =
           (st(client_ip rq \<mapsto> (h + 1, r)), post_process_image now reg prov rq))
   \<and> (st (client_ip rq) = Some (h, r) \<and> now < r \<and> 10 \<le> h
     \<longrightarrow> service st now reg prov Process_image rq =
           (st(client_ip rq \<mapsto> (h + 1, r)),
            Plain 429 ''Too many requests, please try again later.'', [], []))
   \<and> service st now reg prov Elsewhere rq = (st, Not_found, [], [])"
proof -
  have a: "length (admitted a ((t0, Process_image, rq0) # rest)
                  (serve store reg prov ((t0, Process_image, rq0) # rest))) \<le> 10"
    if ip: "client_ip rq0 = a"
      and new: "store a = None \<or> (\<exists>h0 r0. store a = Some (h0, r0) \<and> r0 \<le> t0)"
      and before: "\<forall>(now, tgt, rq) \<in> set rest.
             client_ip rq = a \<and> tgt = Process_image \<longrightarrow> now < t0 + 120000"
  proof -
    let ?store' = "store(a \<mapsto> (1, t0 + 120000))"
    have "?store' a = Some (1, t0 + 120000)" by simp
    from admitted_in_window [of ?store' a 1 "t0 + 120000" rest, OF this before]
    have "length (admitted a rest (serve ?store' reg prov rest)) \<le> 9"
      by simp
    moreover have "serve store reg prov ((t0, Process_image, rq0) # rest)
          = post_process_image t0 reg prov rq0 # serve ?store' reg prov rest"
      using ip limiter_new_window [of store a t0, OF new] by (simp add: service_def)
    ultimately show ?thesis
      by (simp add: admitted_def split: prod.splits)
  qed
  have b: "length (admitted a reqs (serve running reg prov reqs)) \<le> 10 - h1"
    if "running a = Some (h1, r1)"
      and "\<forall>(now, tgt, rq) \<in> set reqs.
             client_ip rq = a \<and> tgt = Process_image \<longrightarrow> now < r1"
    using that by (rule admitted_in_window)
  have c: "\<forall>(res, stored, calls) \<in> set (serve store reg prov reqs).
               res = Plain 429 ''Too many requests, please try again later.''
                 \<longrightarrow> stored = [] \<and> calls = []"
    using serve_throttled_no_effects [of _ _ _ store reg prov reqs]
    by (auto simp: limiter_opts_def)
  have d: "service st now reg prov Process_image rq =
           (st(client_ip rq \<mapsto> (1, now + 120000)), post_process_image now reg prov rq)"
    if "st (client_ip rq) = None \<or> (\<exists>h0 r0. st (client_ip rq) = Some (h0, r0) \<and> r0 \<le> now)"
    using limiter_new_window [of st "client_ip rq" now, OF that] by (simp add: service_def)
  have e: "service st now reg prov Process_image rq =
           (st(client_ip rq \<mapsto> (h + 1, r)), post_process_image now reg prov rq)"
    if "st (client_ip rq) = Some (h, r)" "now < r" "h < 10"
    using that by (simp add: service_def limiter_in_window)
  have f: "service st now reg prov Process_image rq =
             (st(client_ip rq \<mapsto> (h + 1, r)),
              Plain 429 ''Too many requests, please try again later.'', [], [])"
    if "st (client_ip rq) = Some (h, r)" "now < r" "10 \<le> h"
    using that by (simp add: service_def limiter_in_window)
  have g: "service st now reg prov Elsewhere rq = (st, Not_found, [], [])"
    by (simp add: service_def)
  from a b c d e f g show ?thesis by blast
qed

theorem rate_limit_window_witness:
  "length (admitted ''10.0.0.1'' burst
         (serve (\<lambda>k. None) sample_workflows (sample_provider task_created one_output) burst))
        \<le> 10
   \<and> length (admitted ''10.0.0.1''
         ((120000, Process_image, sample_upload ''.png'' ''image/png'' 1000) # burst_rest)
         (serve full_window sample_workflows (sample_provider task_created one_output)
            ((120000, Process_image, sample_upload ''.png'' ''image/png'' 1000) # burst_rest)))
        \<le> 10
   \<and> length (admitted ''10.0.0.1'' burst_rest
         (serve two_hits sample_workflows (sample_provider task_created one_output) burst_rest))
        \<le> 10 - 2
   \<and> fst (last (serve (\<lambda>k. None) sample_workflows (sample_provider task_created one_output) burst))
       = Plain 429 ''Too many requests, please try again later.''
   \<and> snd (last (serve (\<lambda>k. None) sample_workflows (sample_provider task_created one_output) burst))
       = ([], [])
   \<and> service full_window 120000 sample_workflows (sample_provider task_created one_output)
         Process_image (sample_upload ''.png'' ''image/png'' 1000)
       = (full_window(''10.0.0.1'' \<mapsto> (1, 240000)),
          post_process_image 120000 sample_workflows (sample_provider task_created one_output)
            (sample_upload ''.png'' ''image/png'' 1000))
   \<and> service two_hits 1000 sample_workflows (sample_provider task_created one_output)
         Process_image (sample_upload ''.png'' ''image/png'' 1000)
       = (two_hits(''10.0.0.1'' \<mapsto> (3, 120000)),
          post_process_image 1000 sample_workflows (sample_provider task_created one_output)
            (sample_upload ''.png'' ''image/png'' 1000))
   \<and> service full_window 10000 sample_workflows (sample_provider task_created one_output)
         Process_image (sample_upload ''.png'' ''image/png'' 1000)
       = (full_window(''10.0.0.1'' \<mapsto> (11, 120000)),
          Plain 429 ''Too many requests, please try again later.'', [], [])
   \<and> service full_window 10000 sample_workflows (sample_provider task_created one_output)
         Elsewhere (sample_upload ''.png'' ''image/png'' 1000)
       = (full_window, Not_found, [], [])"
proof -
  let ?reg = sample_workflows
  let ?prov = "sample_provider task_created one_output"
  let ?rq = "sample_upload ''.png'' ''image/png'' 1000"
  let ?run = "serve (\<lambda>k. None) ?reg ?prov burst"
  have ip: "client_ip ?rq = ''10.0.0.1''"
    by (simp add: sample_upload_def)
  have fresh: "(\<lambda>k. None) ''10.0.0.1'' = (None :: (nat \<times> nat) option)" by simp
  have full: "full_window ''10.0.0.1'' = Some (10, 120000)"
    by (simp add: full_window_def)
  have two: "two_hits ''10.0.0.1'' = Some (2, 120000)"
    by (simp add: two_hits_def)
  have early: "\<forall>(now, tgt, rq) \<in> set burst_rest.
          client_ip rq = ''10.0.0.1'' \<and> tgt = Process_image \<longrightarrow> now < 0 + 120000"
    by (simp add: burst_rest_def)
  have late: "\<forall>(now, tgt, rq) \<in> set burst_rest.
          client_ip rq = ''10.0.0.1'' \<and> tgt = Process_image \<longrightarrow> now < 120000 + 120000"
    by (simp add: burst_rest_def)
  have running: "\<forall>(now, tgt, rq) \<in> set burst_rest.
          client_ip rq = ''10.0.0.1'' \<and> tgt = Process_image \<longrightarrow> now < 120000"
    by (simp add: burst_rest_def)
  note first_window =
    rate_limit_window [where ?rq0.0 = ?rq and a = "''10.0.0.1''" and store = "\<lambda>k. None"
      and ?t0.0 = 0 and rest = burst_rest and reg = ?reg and prov = ?prov
      and running = two_hits and ?h1.0 = 2 and ?r1.0 = 120000
      and reqs = "(0, Process_image, ?rq) # burst_rest"
      and st = two_hits and rq = ?rq and now = 1000 and h = 2 and r = 120000]
  note next_window =
    rate_limit_window [where ?rq0.0 = ?rq and a = "''10.0.0.1''" and store = full_window
      and ?t0.0 = 120000 and rest = burst_rest and reg = ?reg and prov = ?prov
      and running = two_hits and ?h1.0 = 2 and ?r1.0 = 120000 and reqs = burst_rest
      and st = full_window and rq = ?rq and now = 120000 and h = 10 and r = 120000]
  note full_case =
    rate_limit_window [where ?rq0.0 = ?rq and a = "''10.0.0.1''" and store = "\<lambda>k. None"
      and ?t0.0 = 0 and rest = burst_rest and reg = ?reg and prov = ?prov
      and running = two_hits and ?h1.0 = 2 and ?r1.0 = 120000 and reqs = burst_rest
      and st = full_window and rq = ?rq and now = 10000 and h = 10 and r = 120000]
  have a: "length (admitted ''10.0.0.1'' burst ?run) \<le> 10"
    unfolding burst_def
    using first_window [THEN conjunct1] ip fresh early by blast
  have a': "length (admitted ''10.0.0.1'' ((120000, Process_image, ?rq) # burst_rest)
              (serve full_window ?reg ?prov ((120000, Process_image, ?rq) # burst_rest))) \<le> 10"
    using next_window [THEN conjunct1] ip full late by blast
  have b: "length (admitted ''10.0.0.1'' burst_rest (serve two_hits ?reg ?prov burst_rest)) \<le> 10 - 2"
    using next_window [THEN conjunct2, THEN conjunct1] two running by blast
  have c: "\<forall>(res, stored, calls) \<in> set ?run.
              res = Plain 429 ''Too many requests, please try again later.''
                \<longrightarrow> stored = [] \<and> calls = []"
    unfolding burst_def
    by (rule first_window [THEN conjunct2, THEN conjunct2, THEN conjunct1])
  have d: "service full_window 120000 ?reg ?prov Process_image ?rq
             = (full_window(''10.0.0.1'' \<mapsto> (1, 240000)), post_process_image 120000 ?reg ?prov ?rq)"
    using next_window [THEN conjunct2, THEN conjunct2, THEN conjunct2, THEN conjunct1] full
    by (simp add: ip)
  have e: "service two_hits 1000 ?reg ?prov Process_image ?rq
             = (two_hits(''10.0.0.1'' \<mapsto> (3, 120000)), post_process_image 1000 ?reg ?prov ?rq)"
    using first_window [THEN conjunct2, THEN conjunct2, THEN conjunct2, THEN conjunct2,
            THEN conjunct1] two
    by (simp add: ip)
  have f: "service full_window 10000 ?reg ?prov Process_image ?rq
             = (full_window(''10.0.0.1'' \<mapsto> (11, 120000)),
                Plain 429 ''Too many requests, please try again later.'', [], [])"
    using full_case [THEN conjunct2, THEN conjunct2, THEN conjunct2, THEN conjunct2,
            THEN conjunct2, THEN conjunct1] full
    by (simp add: ip)
  have g: "service full_window 10000 ?reg ?prov Elsewhere ?rq = (full_window, Not_found, [], [])"
    by (rule full_case [THEN conjunct2, THEN conjunct2, THEN conjunct2, THEN conjunct2,
            THEN conjunct2, THEN conjunct2])
  have ne: "?run \<noteq> []"
    using burst_responses by auto
  have "fst (last ?run) = last (map fst ?run)"
    using ne by (simp add: last_map)
  then have l: "fst (last ?run) = Plain 429 ''Too many requests, please try again later.''"
    by (simp add: burst_responses)
  from ne have "last ?run \<in> set ?run" by simp
  with c l have m: "snd (last ?run) = ([], [])"
    by (cases "last ?run") auto
  from a a' b l m d e f g show ?thesis by blast
qed

end
